theory Spec2Isabelle
  imports Main
begin

section \<open>Events, world and failures\<close>

text \<open>
  The plugin file \<^verbatim>\<open>gui.cpp\<close> holds Qt windows that collect user input and pipeline
  transforms that drive them.  The owner thread's event loop is modelled as a finite
  stream of events that the blocked driver consumes in order; the messages written by
  \<^verbatim>\<open>qDebug\<close> and \<^verbatim>\<open>qWarning\<close> are collected in a log.  A point is the integer cursor
  position of \<^verbatim>\<open>QMouseEvent::pos()\<close>; an image and a pixmap are opaque identifiers.
\<close>

type_synonym QPointF = "int \<times> int"
type_synonym Mat = nat
type_synonym QPixmap = nat

datatype MouseButton = LeftButton | RightButton | OtherButton

text \<open>
  \<open>KeyPress t\<close> is a \<^verbatim>\<open>QKeyEvent\<close> of type \<^verbatim>\<open>QEvent::KeyPress\<close> with text \<open>t\<close>;
  \<open>KeyPressNoCast\<close> is an event of that type on which the \<^verbatim>\<open>dynamic_cast\<close> to
  \<^verbatim>\<open>QKeyEvent\<close> fails.  \<open>ButtonClicked\<close> is the \<^verbatim>\<open>clicked()\<close> signal of the form's
  button and \<open>FieldEdited i s\<close> the user typing \<open>s\<close> into the \<open>i\<close>-th line edit.
\<close>

datatype QEvent =
    KeyPress string
  | KeyPressNoCast
  | MouseButtonPress MouseButton QPointF
  | ButtonClicked
  | FieldEdited nat string
  | OtherEvent

record World =
  events :: "QEvent list"
  log :: "string list"

text \<open>
  \<open>Fatal\<close> is \<^verbatim>\<open>qFatal\<close> (the process aborts), \<open>NullDereference\<close> a member call through
  a null pointer, \<open>IndexOutOfRange\<close> an unchecked \<^verbatim>\<open>QList::operator[]\<close> past the end,
  \<open>BlockedForever\<close> a \<^verbatim>\<open>QWaitCondition::wait\<close> that no later event wakes.
\<close>

datatype failure = Fatal string | NullDereference | IndexOutOfRange | BlockedForever

section \<open>Strings\<close>

text \<open>\<^verbatim>\<open>QString::toLower\<close> on 8-bit strings: the letters A to Z are mapped to a to z.\<close>

definition char_toLower :: "char \<Rightarrow> char" where
  "char_toLower c =
     (let n = (of_char c :: nat) in if 65 \<le> n \<and> n \<le> 90 then char_of (n + 32) else c)"

definition toLower :: "string \<Rightarrow> string" where
  "toLower s = map char_toLower s"

section \<open>The display windows\<close>

text \<open>
  \<^verbatim>\<open>DisplayWindow\<close> and its subclasses \<^verbatim>\<open>PointMarkingWindow\<close> and \<^verbatim>\<open>PromptWindow\<close> are
  one record with the dynamic type as a tag; \<open>points\<close> is the field of the point
  marking window, \<open>gotString\<close> the field of the prompt window, \<open>overlay\<close> the ellipses
  painted over the displayed pixmap.
\<close>

datatype WindowType = DisplayWindowT | PointMarkingWindowT | PromptWindowT

record DisplayWindow =
  wtype :: WindowType
  pixmap :: QPixmap
  visible :: bool
  windowTitle :: string
  overlay :: "QPointF list"
  points :: "QPointF list"
  gotString :: string

definition new_window :: "WindowType \<Rightarrow> DisplayWindow" where
  "new_window t =
     \<lparr>wtype = t, pixmap = 0, visible = False, windowTitle = [], overlay = [],
      points = [], gotString = []\<rparr>"

definition showImage :: "DisplayWindow \<Rightarrow> QPixmap \<Rightarrow> DisplayWindow" where
  "showImage w input = w\<lparr>pixmap := input, visible := True, overlay := []\<rparr>"

text \<open>
  An event filter returns the window, whether it called \<^verbatim>\<open>wait.wakeAll()\<close>, and the
  messages it logged.
\<close>

fun isKeyPress :: "QEvent \<Rightarrow> bool" where
  "isKeyPress (KeyPress t) = True"
| "isKeyPress KeyPressNoCast = True"
| "isKeyPress _ = False"

definition DisplayWindow_eventFilter ::
  "DisplayWindow \<Rightarrow> QEvent \<Rightarrow> DisplayWindow \<times> bool \<times> string list" where
  "DisplayWindow_eventFilter w ev = (if isKeyPress ev then (w, True, []) else (w, False, []))"

definition PointMarkingWindow_eventFilter ::
  "DisplayWindow \<Rightarrow> QEvent \<Rightarrow> DisplayWindow \<times> bool \<times> string list" where
  "PointMarkingWindow_eventFilter w ev =
     (case ev of
        MouseButtonPress button pos \<Rightarrow>
          (let w1 = (if button = LeftButton then w\<lparr>points := points w @ [pos]\<rparr>
                     else if button = RightButton \<and> points w \<noteq> []
                          then w\<lparr>points := butlast (points w)\<rparr>
                     else w)
           in (w1\<lparr>overlay := points w1\<rparr>, False, []))
      | _ \<Rightarrow> DisplayWindow_eventFilter w ev)"

definition PromptWindow_eventFilter ::
  "DisplayWindow \<Rightarrow> QEvent \<Rightarrow> DisplayWindow \<times> bool \<times> string list" where
  "PromptWindow_eventFilter w ev =
     (case ev of
        KeyPress t \<Rightarrow>
          (let text = toLower t
           in if text = ''y'' \<or> text = ''n''
              then (w\<lparr>gotString := t\<rparr>, True, [])
              else (w, False, [''Please answer y/n'']))
      | KeyPressNoCast \<Rightarrow> (w, False, [''failed to donwcast key event''])
      | _ \<Rightarrow> (w, False, []))"

definition eventFilter ::
  "DisplayWindow \<Rightarrow> QEvent \<Rightarrow> DisplayWindow \<times> bool \<times> string list" where
  "eventFilter w ev =
     (case wtype w of
        DisplayWindowT \<Rightarrow> DisplayWindow_eventFilter w ev
      | PointMarkingWindowT \<Rightarrow> PointMarkingWindow_eventFilter w ev
      | PromptWindowT \<Rightarrow> PromptWindow_eventFilter w ev)"

text \<open>
  \<^verbatim>\<open>wait.wait(&lock)\<close>: the caller sleeps while the owner thread feeds the events to
  the window's filter, until one of them calls \<^verbatim>\<open>wakeAll\<close>.  When the events run out
  before that, the caller is never woken: the result is \<open>None\<close>.
\<close>

fun wait_events ::
  "DisplayWindow \<Rightarrow> QEvent list \<Rightarrow> string list \<Rightarrow>
   (DisplayWindow \<times> QEvent list \<times> string list) option" where
  "wait_events w [] lg = None"
| "wait_events w (e # es) lg =
     (case eventFilter w e of
        (w', woke, msgs) \<Rightarrow>
          if woke then Some (w', es, lg @ msgs) else wait_events w' es (lg @ msgs))"

definition wait_wait :: "DisplayWindow \<Rightarrow> World \<Rightarrow> (DisplayWindow \<times> World) option" where
  "wait_wait w W =
     (case wait_events w (events W) (log W) of
        None \<Rightarrow> None
      | Some (w', es, lg) \<Rightarrow> Some (w', \<lparr>events = es, log = lg\<rparr>))"

definition DisplayWindow_waitForKey ::
  "DisplayWindow \<Rightarrow> World \<Rightarrow> (QPointF list \<times> DisplayWindow \<times> World) option" where
  "DisplayWindow_waitForKey w W =
     (case wait_wait w W of None \<Rightarrow> None | Some (w', W') \<Rightarrow> Some ([], w', W'))"

definition PointMarkingWindow_waitForKey ::
  "DisplayWindow \<Rightarrow> World \<Rightarrow> (QPointF list \<times> DisplayWindow \<times> World) option" where
  "PointMarkingWindow_waitForKey w W =
     (case wait_wait (w\<lparr>points := []\<rparr>) W of
        None \<Rightarrow> None
      | Some (w', W') \<Rightarrow> Some (points w', w', W'))"

definition waitForKey ::
  "DisplayWindow \<Rightarrow> World \<Rightarrow> (QPointF list \<times> DisplayWindow \<times> World) option" where
  "waitForKey w W =
     (case wtype w of
        PointMarkingWindowT \<Rightarrow> PointMarkingWindow_waitForKey w W
      | _ \<Rightarrow> DisplayWindow_waitForKey w W)"

definition waitForKeyPress ::
  "DisplayWindow \<Rightarrow> World \<Rightarrow> (string \<times> DisplayWindow \<times> World) option" where
  "waitForKeyPress w W =
     (case wait_wait w W of None \<Rightarrow> None | Some (w', W') \<Rightarrow> Some (gotString w', w', W'))"

section \<open>Files, templates and globals\<close>

datatype QVariant = VString string | VPoint QPointF | VNumber int

record File =
  name :: string
  m_metadata :: "string \<rightharpoonup> QVariant"
  unlabeled_points :: "QPointF list"

text \<open>
  Modelled from the spec: \<^verbatim>\<open>File::set\<close> is declared outside this plugin file; it
  writes one metadata value under a key.
\<close>

definition File_set :: "File \<Rightarrow> string \<Rightarrow> QVariant \<Rightarrow> File" where
  "File_set f key v = f\<lparr>m_metadata := (m_metadata f)(key \<mapsto> v)\<rparr>"

text \<open>
  Modelled from the spec: \<^verbatim>\<open>File::appendPoints\<close> is declared outside this plugin file;
  it appends the points to the frame's unlabeled point set.
\<close>

definition File_appendPoints :: "File \<Rightarrow> QPointF list \<Rightarrow> File" where
  "File_appendPoints f pts = f\<lparr>unlabeled_points := unlabeled_points f @ pts\<rparr>"

text \<open>
  Modelled from the spec: \<^verbatim>\<open>File::contains\<close>, \<^verbatim>\<open>File::get<QString>\<close> and
  \<^verbatim>\<open>File::fileName\<close> are declared outside this plugin file; a key is contained when
  the metadata has a value for it, the value is rendered by Qt's conversion to a string
  (the parameter \<open>toString\<close>), and the built-in identifier of a frame is its name.
\<close>

definition File_contains :: "File \<Rightarrow> string \<Rightarrow> bool" where
  "File_contains f key = (m_metadata f key \<noteq> None)"

definition File_get_QString :: "(QVariant \<Rightarrow> string) \<Rightarrow> File \<Rightarrow> string \<Rightarrow> string" where
  "File_get_QString toString f key =
     (case m_metadata f key of None \<Rightarrow> [] | Some v \<Rightarrow> toString v)"

definition File_fileName :: "File \<Rightarrow> string" where
  "File_fileName f = name f"

text \<open>A template is a list of matrices together with its file (the field \<open>tfile\<close>).\<close>

record Template =
  tfile :: File
  mats :: "Mat list"

type_synonym TemplateList = "Template list"

record Globals =
  useGui :: bool
  parallelism :: int

text \<open>
  \<^verbatim>\<open>toQImage\<close> rescales and reorders the channels of a matrix; the image it returns is
  only handed to the window, so it is kept as the identifier of the matrix.
\<close>

definition toQImage :: "Mat \<Rightarrow> QPixmap" where
  "toQImage m = m"

section \<open>Show, Manual and Survey\<close>

text \<open>
  \<^verbatim>\<open>ManualTransform\<close> and \<^verbatim>\<open>SurveyTransform\<close> inherit from \<^verbatim>\<open>ShowTransform\<close>; the record
  holds the members of all three (\<open>question\<close> and \<open>propertyName\<close> are Survey's).  A
  pointer is an option, \<open>None\<close> for \<^verbatim>\<open>NULL\<close>.  Survey's \<^verbatim>\<open>p_window\<close> is the same object
  as \<open>window\<close> after a cast; it is read through \<open>window\<close>.
\<close>

record ShowTransform =
  waitInput :: bool
  keys :: "string list"
  question :: string
  propertyName :: string
  window :: "DisplayWindow option"
  qImageBuffer :: QPixmap
  displayBuffer :: "QPixmap option"

definition new_ShowTransform :: ShowTransform where
  "new_ShowTransform =
     \<lparr>waitInput = True, keys = [], question = ''Yes/No'', propertyName = ''answer'',
      window = None, qImageBuffer = 0, displayBuffer = None\<rparr>"

text \<open>
  The signals are connected to the window's slots by \<open>initActual\<close> only; emitting a
  signal that has no receiver does nothing.
\<close>

definition emit_updateImage :: "ShowTransform \<Rightarrow> QPixmap \<Rightarrow> ShowTransform" where
  "emit_updateImage T input = T\<lparr>window := map_option (\<lambda>w. showImage w input) (window T)\<rparr>"

definition emit_changeTitle :: "ShowTransform \<Rightarrow> string \<Rightarrow> ShowTransform" where
  "emit_changeTitle T input =
     T\<lparr>window := map_option (\<lambda>w. w\<lparr>windowTitle := input\<rparr>) (window T)\<rparr>"

definition emit_hideWindow :: "ShowTransform \<Rightarrow> ShowTransform" where
  "emit_hideWindow T = T\<lparr>window := map_option (\<lambda>w. w\<lparr>visible := False\<rparr>) (window T)\<rparr>"

definition initActual :: "Globals \<Rightarrow> WindowType \<Rightarrow> ShowTransform \<Rightarrow> ShowTransform" where
  "initActual G wt T =
     (if \<not> useGui G then T
      else T\<lparr>displayBuffer := Some 0, window := Some (new_window wt)\<rparr>)"

definition Show_init :: "Globals \<Rightarrow> ShowTransform \<Rightarrow> ShowTransform" where
  "Show_init G T = initActual G DisplayWindowT T"

definition Manual_init :: "Globals \<Rightarrow> ShowTransform \<Rightarrow> ShowTransform" where
  "Manual_init G T = initActual G PointMarkingWindowT T"

definition Survey_init :: "Globals \<Rightarrow> ShowTransform \<Rightarrow> ShowTransform" where
  "Survey_init G T =
     (if \<not> useGui G then T
      else (let T1 = initActual G PromptWindowT T in emit_changeTitle T1 (question T1)))"

definition finalize :: "ShowTransform \<Rightarrow> ShowTransform" where
  "finalize T = emit_hideWindow T"

subsection \<open>Show\<close>

fun Show_title :: "(QVariant \<Rightarrow> string) \<Rightarrow> string list \<Rightarrow> File \<Rightarrow> string \<Rightarrow> string" where
  "Show_title toString [] f newTitle = newTitle"
| "Show_title toString (s # ss) f newTitle =
     (if toLower s = ''name''
      then Show_title toString ss f (newTitle @ s @ '': '' @ File_fileName f @ '' '')
      else if File_contains f s
      then Show_title toString ss f
             (newTitle @ s @ '': '' @ File_get_QString toString f s @ '' '')
      else Show_title toString ss f newTitle)"

fun Show_mats ::
  "ShowTransform \<Rightarrow> Mat list \<Rightarrow> World \<Rightarrow> failure + (ShowTransform \<times> World)" where
  "Show_mats T [] W = Inr (T, W)"
| "Show_mats T (m # ms) W =
     (case displayBuffer T of
        None \<Rightarrow> Inl NullDereference
      | Some _ \<Rightarrow>
          (let T1 = T\<lparr>qImageBuffer := toQImage m, displayBuffer := Some (toQImage m)\<rparr>;
               T2 = emit_updateImage T1 (toQImage m)
           in if waitInput T2
              then (case window T2 of
                      None \<Rightarrow> Inl NullDereference
                    | Some w \<Rightarrow>
                        (case waitForKey w W of
                           None \<Rightarrow> Inl BlockedForever
                         | Some (pts, w', W') \<Rightarrow> Show_mats (T2\<lparr>window := Some w'\<rparr>) ms W'))
              else Show_mats T2 ms W))"

fun Show_templates ::
  "(QVariant \<Rightarrow> string) \<Rightarrow> ShowTransform \<Rightarrow> TemplateList \<Rightarrow> World \<Rightarrow>
   failure + (ShowTransform \<times> World)" where
  "Show_templates toString T [] W = Inr (T, W)"
| "Show_templates toString T (t # ts) W =
     (let T1 = emit_changeTitle T (Show_title toString (keys T) (tfile t) [])
      in case Show_mats T1 (mats t) W of
           Inl e \<Rightarrow> Inl e
         | Inr (T2, W2) \<Rightarrow> Show_templates toString T2 ts W2)"

definition Show_projectUpdate ::
  "(QVariant \<Rightarrow> string) \<Rightarrow> ShowTransform \<Rightarrow> TemplateList \<Rightarrow> World \<Rightarrow>
   failure + (TemplateList \<times> ShowTransform \<times> World)" where
  "Show_projectUpdate toString T src W =
     (let dst = src
      in if src = [] then Inr (dst, T, W)
         else (case Show_templates toString T src W of
                 Inl e \<Rightarrow> Inl e
               | Inr (T', W') \<Rightarrow> Inr (dst, T', W')))"

subsection \<open>Manual\<close>

text \<open>
  The body of the \<^verbatim>\<open>if (this->waitInput)\<close> branch after the wait: what the collected
  points do to the file, and the warnings logged.
\<close>

definition Manual_merge :: "string list \<Rightarrow> QPointF list \<Rightarrow> File \<Rightarrow> File \<times> string list" where
  "Manual_merge ks pts f =
     (if ks = [] then (File_appendPoints f pts, [])
      else if length ks = length pts
      then (fold (\<lambda>j f'. File_set f' (ks ! j) (VPoint (pts ! j))) [0..<length ks] f, [])
      else (f, [''Incorrect number of points specified for '' @ name f]))"

fun Manual_mats ::
  "ShowTransform \<Rightarrow> Mat list \<Rightarrow> Template \<Rightarrow> World \<Rightarrow>
   failure + (ShowTransform \<times> Template \<times> World)" where
  "Manual_mats T [] t W = Inr (T, t, W)"
| "Manual_mats T (m # ms) t W =
     (case displayBuffer T of
        None \<Rightarrow> Inl NullDereference
      | Some _ \<Rightarrow>
          (let T1 = T\<lparr>qImageBuffer := toQImage m, displayBuffer := Some (toQImage m)\<rparr>;
               T2 = emit_updateImage T1 (toQImage m)
           in if waitInput T2
              then (case window T2 of
                      None \<Rightarrow> Inl NullDereference
                    | Some w \<Rightarrow>
                        (case waitForKey w W of
                           None \<Rightarrow> Inl BlockedForever
                         | Some (pts, w', W') \<Rightarrow>
                             (case Manual_merge (keys T2) pts (tfile t) of
                                (f', msgs) \<Rightarrow>
                                  Manual_mats (T2\<lparr>window := Some w'\<rparr>) ms (t\<lparr>tfile := f'\<rparr>)
                                    (W'\<lparr>log := log W' @ msgs\<rparr>))))
              else Manual_mats T2 ms t W))"

fun Manual_templates ::
  "ShowTransform \<Rightarrow> TemplateList \<Rightarrow> World \<Rightarrow>
   failure + (TemplateList \<times> ShowTransform \<times> World)" where
  "Manual_templates T [] W = Inr ([], T, W)"
| "Manual_templates T (t # ts) W =
     (case Manual_mats T (mats t) t W of
        Inl e \<Rightarrow> Inl e
      | Inr (T1, t1, W1) \<Rightarrow>
          (case Manual_templates T1 ts W1 of
             Inl e \<Rightarrow> Inl e
           | Inr (ts', T2, W2) \<Rightarrow> Inr (t1 # ts', T2, W2)))"

definition Manual_projectUpdate ::
  "Globals \<Rightarrow> ShowTransform \<Rightarrow> TemplateList \<Rightarrow> World \<Rightarrow>
   failure + (TemplateList \<times> ShowTransform \<times> World)" where
  "Manual_projectUpdate G T src W =
     (if parallelism G > 1 then Inl (Fatal ''ManualTransform cannot execute in parallel.'')
      else if src = [] then Inr (src, T, W)
      else Manual_templates T src W)"

subsection \<open>Survey\<close>

fun Survey_mats ::
  "ShowTransform \<Rightarrow> Mat list \<Rightarrow> Template \<Rightarrow> World \<Rightarrow>
   failure + (ShowTransform \<times> Template \<times> World)" where
  "Survey_mats T [] t W = Inr (T, t, W)"
| "Survey_mats T (m # ms) t W =
     (case displayBuffer T of
        None \<Rightarrow> Inl NullDereference
      | Some _ \<Rightarrow>
          (let T1 = T\<lparr>qImageBuffer := toQImage m, displayBuffer := Some (toQImage m)\<rparr>;
               T2 = emit_updateImage T1 (toQImage m)
           in if waitInput T2
              then (case window T2 of
                      None \<Rightarrow> Inl NullDereference
                    | Some w \<Rightarrow>
                        (case waitForKeyPress w W of
                           None \<Rightarrow> Inl BlockedForever
                         | Some (answer, w', W') \<Rightarrow>
                             Survey_mats (T2\<lparr>window := Some w'\<rparr>) ms
                               (t\<lparr>tfile := File_set (tfile t) (propertyName T2) (VString answer)\<rparr>)
                               W'))
              else Survey_mats T2 ms t W))"

fun Survey_templates ::
  "ShowTransform \<Rightarrow> TemplateList \<Rightarrow> World \<Rightarrow>
   failure + (TemplateList \<times> ShowTransform \<times> World)" where
  "Survey_templates T [] W = Inr ([], T, W)"
| "Survey_templates T (t # ts) W =
     (case Survey_mats T (mats t) t W of
        Inl e \<Rightarrow> Inl e
      | Inr (T1, t1, W1) \<Rightarrow>
          (case Survey_templates T1 ts W1 of
             Inl e \<Rightarrow> Inl e
           | Inr (ts', T2, W2) \<Rightarrow> Inr (t1 # ts', T2, W2)))"

definition Survey_projectUpdate ::
  "Globals \<Rightarrow> ShowTransform \<Rightarrow> TemplateList \<Rightarrow> World \<Rightarrow>
   failure + (TemplateList \<times> ShowTransform \<times> World)" where
  "Survey_projectUpdate G T src W =
     (if parallelism G > 1 then Inl (Fatal ''SurveyTransform cannot execute in parallel.'')
      else if src = [] then Inr (src, T, W)
      else Survey_templates T src W)"

section \<open>The form window and Elicit\<close>

text \<open>
  \<^verbatim>\<open>DisplayGUI\<close>: \<open>gui_fields\<close> (the member \<^verbatim>\<open>fields\<close>) holds the text of each
  line edit, \<open>form_labels\<close> the label of each form row added to the layout.
\<close>

record DisplayGUI =
  gui_keys :: "string list"
  gui_fields :: "string list"
  form_labels :: "string list"
  gui_pixmap :: QPixmap
  gui_visible :: bool

definition new_DisplayGUI :: DisplayGUI where
  "new_DisplayGUI =
     \<lparr>gui_keys = [], gui_fields = [], form_labels = [], gui_pixmap = 0, gui_visible = False\<rparr>"

definition setKeys :: "DisplayGUI \<Rightarrow> string list \<Rightarrow> DisplayGUI" where
  "setKeys g k = g\<lparr>gui_keys := k\<rparr>"

definition DisplayGUI_showImage :: "DisplayGUI \<Rightarrow> QPixmap \<Rightarrow> DisplayGUI" where
  "DisplayGUI_showImage g input =
     (let g1 = g\<lparr>gui_pixmap := input\<rparr>;
          g2 = fold (\<lambda>label g'. g'\<lparr>gui_fields := gui_fields g' @ [[]],
                                   form_labels := form_labels g' @ [label]\<rparr>)
                 (gui_keys g1) g1
      in g2\<lparr>gui_visible := True\<rparr>)"

text \<open>
  What the owner thread does with one event while the driver waits: a click on the
  button runs \<^verbatim>\<open>buttonPressed\<close>, which wakes the driver; typing changes the text of
  an existing line edit.
\<close>

definition DisplayGUI_event :: "DisplayGUI \<Rightarrow> QEvent \<Rightarrow> DisplayGUI \<times> bool" where
  "DisplayGUI_event g ev =
     (case ev of
        ButtonClicked \<Rightarrow> (g, True)
      | FieldEdited i s \<Rightarrow>
          (if i < length (gui_fields g) then (g\<lparr>gui_fields := (gui_fields g)[i := s]\<rparr>, False)
           else (g, False))
      | _ \<Rightarrow> (g, False))"

fun DisplayGUI_wait :: "DisplayGUI \<Rightarrow> QEvent list \<Rightarrow> (DisplayGUI \<times> QEvent list) option" where
  "DisplayGUI_wait g [] = None"
| "DisplayGUI_wait g (e # es) =
     (case DisplayGUI_event g e of
        (g', woke) \<Rightarrow> if woke then Some (g', es) else DisplayGUI_wait g' es)"

definition waitForButtonPress ::
  "DisplayGUI \<Rightarrow> World \<Rightarrow> (string list \<times> DisplayGUI \<times> World) option" where
  "waitForButtonPress g W =
     (case DisplayGUI_wait g (events W) of
        None \<Rightarrow> None
      | Some (g', es) \<Rightarrow>
          Some (map (\<lambda>i. gui_fields g' ! i) [0..<length (gui_fields g')], g', W\<lparr>events := es\<rparr>))"

record ElicitTransform =
  elicit_keys :: "string list"
  gui :: "DisplayGUI option"
  elicit_qImageBuffer :: QPixmap
  elicit_displayBuffer :: "QPixmap option"

definition new_ElicitTransform :: ElicitTransform where
  "new_ElicitTransform =
     \<lparr>elicit_keys = [], gui = None, elicit_qImageBuffer = 0, elicit_displayBuffer = None\<rparr>"

definition Elicit_emit_updateImage :: "ElicitTransform \<Rightarrow> QPixmap \<Rightarrow> ElicitTransform" where
  "Elicit_emit_updateImage T input =
     T\<lparr>gui := map_option (\<lambda>g. DisplayGUI_showImage g input) (gui T)\<rparr>"

definition Elicit_init :: "Globals \<Rightarrow> ElicitTransform \<Rightarrow> ElicitTransform" where
  "Elicit_init G T =
     (if \<not> useGui G then T
      else T\<lparr>elicit_displayBuffer := Some 0,
             gui := Some (setKeys new_DisplayGUI (elicit_keys T))\<rparr>)"

text \<open>
  The loop \<^verbatim>\<open>for (j = 0; j < keys.size(); j++) dst[i].file.set(keys[j], metadata[j])\<close>;
  \<open>js\<close> are the indices still to come.
\<close>

fun Elicit_set :: "string list \<Rightarrow> string list \<Rightarrow> nat list \<Rightarrow> File \<Rightarrow> failure + File" where
  "Elicit_set ks metadata [] f = Inr f"
| "Elicit_set ks metadata (j # js) f =
     (if j < length metadata
      then Elicit_set ks metadata js (File_set f (ks ! j) (VString (metadata ! j)))
      else Inl IndexOutOfRange)"

fun Elicit_mats ::
  "ElicitTransform \<Rightarrow> Mat list \<Rightarrow> Template \<Rightarrow> World \<Rightarrow>
   failure + (ElicitTransform \<times> Template \<times> World)" where
  "Elicit_mats T [] t W = Inr (T, t, W)"
| "Elicit_mats T (m # ms) t W =
     (case elicit_displayBuffer T of
        None \<Rightarrow> Inl NullDereference
      | Some _ \<Rightarrow>
          (let T1 = T\<lparr>elicit_qImageBuffer := toQImage m,
                      elicit_displayBuffer := Some (toQImage m)\<rparr>;
               T2 = Elicit_emit_updateImage T1 (toQImage m)
           in case gui T2 of
                None \<Rightarrow> Inl NullDereference
              | Some g \<Rightarrow>
                  (case waitForButtonPress g W of
                     None \<Rightarrow> Inl BlockedForever
                   | Some (metadata, g', W') \<Rightarrow>
                       (case Elicit_set (elicit_keys T2) metadata
                               [0..<length (elicit_keys T2)] (tfile t) of
                          Inl e \<Rightarrow> Inl e
                        | Inr f' \<Rightarrow>
                            Elicit_mats (T2\<lparr>gui := Some g'\<rparr>) ms (t\<lparr>tfile := f'\<rparr>) W'))))"

fun Elicit_templates ::
  "ElicitTransform \<Rightarrow> TemplateList \<Rightarrow> World \<Rightarrow>
   failure + (TemplateList \<times> ElicitTransform \<times> World)" where
  "Elicit_templates T [] W = Inr ([], T, W)"
| "Elicit_templates T (t # ts) W =
     (case Elicit_mats T (mats t) t W of
        Inl e \<Rightarrow> Inl e
      | Inr (T1, t1, W1) \<Rightarrow>
          (case Elicit_templates T1 ts W1 of
             Inl e \<Rightarrow> Inl e
           | Inr (ts', T2, W2) \<Rightarrow> Inr (t1 # ts', T2, W2)))"

definition Elicit_projectUpdate ::
  "ElicitTransform \<Rightarrow> TemplateList \<Rightarrow> World \<Rightarrow>
   failure + (TemplateList \<times> ElicitTransform \<times> World)" where
  "Elicit_projectUpdate T src W =
     (if src = [] then Inr (src, T, W) else Elicit_templates T src W)"

section \<open>Pacing\<close>

text \<open>
  The wall clock is an integer number of milliseconds.  A \<^verbatim>\<open>QElapsedTimer\<close> is the
  clock reading at its \<^verbatim>\<open>start()\<close>; \<^verbatim>\<open>elapsed()\<close> is the current reading minus that,
  as Qt returns it.
\<close>

subsection \<open>FPSLimit\<close>

record FPSLimit =
  targetFPS :: int
  timer :: int
  target_wait :: int
  last_time :: int

text \<open>
  \<^verbatim>\<open>target_wait = 1000.0 / targetFPS\<close> stores a double quotient in a \<^verbatim>\<open>qint64\<close>: the
  conversion drops the fraction.  For a 32-bit divisor other than zero the rounded
  double quotient has the same integer part as the exact one; for zero the quotient is
  infinite and the conversion is undefined (\<open>None\<close>).
\<close>

definition target_wait_of :: "int \<Rightarrow> int option" where
  "target_wait_of r =
     (if r = 0 then None
      else if 0 < r then Some (1000 div r)
      else Some (- (1000 div (- r))))"

text \<open>\<open>c_start\<close> and \<open>c_elapsed\<close> are the clock at \<^verbatim>\<open>timer.start()\<close> and at \<^verbatim>\<open>timer.elapsed()\<close>.\<close>

definition FPSLimit_init :: "FPSLimit \<Rightarrow> int \<Rightarrow> int \<Rightarrow> FPSLimit option" where
  "FPSLimit_init s c_start c_elapsed =
     (case target_wait_of (targetFPS s) of
        None \<Rightarrow> None
      | Some tw \<Rightarrow>
          Some (s\<lparr>target_wait := tw, timer := c_start, last_time := c_elapsed - c_start\<rparr>))"

text \<open>
  \<open>now\<close> is the clock when the call reads \<^verbatim>\<open>timer.elapsed()\<close>; \<^verbatim>\<open>msleep\<close> returns
  \<open>oversleep\<close> milliseconds after the requested time.  The result holds the clock at
  which the call returns.
\<close>

definition FPSLimit_projectUpdate ::
  "FPSLimit \<Rightarrow> int \<Rightarrow> int \<Rightarrow> TemplateList \<Rightarrow> TemplateList \<times> FPSLimit \<times> int" where
  "FPSLimit_projectUpdate s now oversleep src =
     (let dst = src;
          current_time = now - timer s;
          target_time = last_time s + target_wait s;
          wait_time = target_time - current_time;
          s1 = s\<lparr>last_time := current_time\<rparr>
      in if wait_time < 0 then (dst, s1, now)
         else (let woke = now + wait_time + oversleep
               in (dst, s1\<lparr>last_time := woke - timer s\<rparr>, woke)))"

text \<open>
  Consecutive ticks: before each call the upstream stages take \<open>work\<close> milliseconds,
  and the call's sleep overshoots by \<open>oversleep\<close>.  The result is the state and the
  clock after the last tick.
\<close>

fun FPSLimit_ticks :: "FPSLimit \<Rightarrow> int \<Rightarrow> (int \<times> int) list \<Rightarrow> FPSLimit \<times> int" where
  "FPSLimit_ticks s now [] = (s, now)"
| "FPSLimit_ticks s now ((work, oversleep) # cs) =
     (case FPSLimit_projectUpdate s (now + work) oversleep [] of
        (dst, s', now') \<Rightarrow> FPSLimit_ticks s' now' cs)"

subsection \<open>FPSCalc\<close>

record FPSCalc =
  initialized :: bool
  calc_timer :: int
  framesSeen :: int

definition FPSCalc_init :: "FPSCalc \<Rightarrow> FPSCalc" where
  "FPSCalc_init s = s\<lparr>initialized := False, framesSeen := 0\<rparr>"

text \<open>
  The frame counter is a \<^verbatim>\<open>qint64\<close>: a sum or product that leaves the range keeps
  its low 64 bits, read as a signed number.
\<close>

definition wrap64 :: "int \<Rightarrow> int" where
  "wrap64 x = (x + 2 ^ 63) mod 2 ^ 64 - 2 ^ 63"

text \<open>Division of C++ integers rounds toward zero.\<close>

definition cpp_div :: "int \<Rightarrow> int \<Rightarrow> int" where
  "cpp_div a b = (if (a < 0) = (b < 0) then \<bar>a\<bar> div \<bar>b\<bar> else - (\<bar>a\<bar> div \<bar>b\<bar>))"

text \<open>
  \<open>c_start\<close> is the clock at \<^verbatim>\<open>timer.start()\<close> (read on the first call only), \<open>now\<close>
  the clock at \<^verbatim>\<open>timer.elapsed()\<close>.  The average is a 64-bit integer quotient;
  \<open>VNumber q\<close> stands for the double that the conversion of \<open>q\<close> gives.
\<close>

definition FPSCalc_projectUpdate ::
  "FPSCalc \<Rightarrow> int \<Rightarrow> int \<Rightarrow> TemplateList \<Rightarrow> TemplateList \<times> FPSCalc" where
  "FPSCalc_projectUpdate s c_start now src =
     (let dst = src;
          s1 = (if \<not> initialized s then s\<lparr>initialized := True, calc_timer := c_start\<rparr> else s);
          s2 = s1\<lparr>framesSeen := wrap64 (framesSeen s1 + 1)\<rparr>
      in case dst of
           [] \<Rightarrow> (dst, s2)
         | t # ts \<Rightarrow>
             (let elapsed = now - calc_timer s2
              in if elapsed > 1000
                 then (let fps = cpp_div (wrap64 (1000 * framesSeen s2)) elapsed
                       in (t\<lparr>tfile := File_set (tfile t) ''AvgFPS'' (VNumber fps)\<rparr> # ts, s2))
                 else (dst, s2)))"

text \<open>
  The lifetime of the component: \<open>init\<close>, then one call of \<open>projectUpdate\<close> per batch.
  Each call is given as the two clock readings and the batch.
\<close>

fun FPSCalc_calls :: "FPSCalc \<Rightarrow> (int \<times> int \<times> TemplateList) list \<Rightarrow> FPSCalc" where
  "FPSCalc_calls s [] = s"
| "FPSCalc_calls s ((c_start, now, src) # cs) =
     FPSCalc_calls (snd (FPSCalc_projectUpdate s c_start now src)) cs"

definition FPSCalc_lifetime :: "FPSCalc \<Rightarrow> (int \<times> int \<times> TemplateList) list \<Rightarrow> FPSCalc" where
  "FPSCalc_lifetime s cs = FPSCalc_calls (FPSCalc_init s) cs"

section \<open>Notions of the specification\<close>

text \<open>
  The events of one wait cycle of a display window are those before the first key
  press.  A primary press is a press of the left button; a secondary press is applied
  when it arrives while the list holds a point (\<open>n\<close> counts the points held).
\<close>

definition cycle_events :: "QEvent list \<Rightarrow> QEvent list" where
  "cycle_events evs = takeWhile (\<lambda>e. \<not> isKeyPress e) evs"

fun primary_presses :: "QEvent list \<Rightarrow> nat" where
  "primary_presses [] = 0"
| "primary_presses (e # es) =
     (case e of
        MouseButtonPress b p \<Rightarrow>
          (if b = LeftButton then Suc (primary_presses es) else primary_presses es)
      | _ \<Rightarrow> primary_presses es)"

fun applied_secondary :: "nat \<Rightarrow> QEvent list \<Rightarrow> nat" where
  "applied_secondary n [] = 0"
| "applied_secondary n (e # es) =
     (case e of
        MouseButtonPress b p \<Rightarrow>
          (if b = LeftButton then applied_secondary (Suc n) es
           else if b = RightButton \<and> n \<noteq> 0 then Suc (applied_secondary (n - 1) es)
           else applied_secondary n es)
      | _ \<Rightarrow> applied_secondary n es)"

text \<open>
  The prompt accepts a key press whose text is y or n in either case; every other
  key press gets an advisory message.
\<close>

fun prompt_accepts :: "QEvent \<Rightarrow> bool" where
  "prompt_accepts (KeyPress t) = (toLower t = ''y'' \<or> toLower t = ''n'')"
| "prompt_accepts _ = False"

fun prompt_advisory :: "QEvent \<Rightarrow> string list" where
  "prompt_advisory (KeyPress t) = [''Please answer y/n'']"
| "prompt_advisory KeyPressNoCast = [''failed to donwcast key event'']"
| "prompt_advisory _ = []"

section \<open>Concrete inputs\<close>

definition headless :: Globals where
  "headless = \<lparr>useGui = False, parallelism = 1\<rparr>"

definition with_gui :: Globals where
  "with_gui = \<lparr>useGui = True, parallelism = 1\<rparr>"

definition parallel2 :: Globals where
  "parallel2 = \<lparr>useGui = True, parallelism = 2\<rparr>"

definition file0 :: File where
  "file0 = \<lparr>name = ''a.png'', m_metadata = Map.empty, unlabeled_points = []\<rparr>"

definition frame0 :: Template where
  "frame0 = \<lparr>tfile = file0, mats = [7]\<rparr>"

definition quiet :: World where
  "quiet = \<lparr>events = [], log = []\<rparr>"

definition limiter30 :: FPSLimit where
  "limiter30 = \<lparr>targetFPS = 30, timer = 0, target_wait = 0, last_time = 0\<rparr>"

definition calc9 :: FPSCalc where
  "calc9 = \<lparr>initialized = True, calc_timer = 0, framesSeen = 9\<rparr>"

definition limiter1001 :: FPSLimit where
  "limiter1001 = \<lparr>targetFPS = 1001, timer = 0, target_wait = 0, last_time = 0\<rparr>"




definition elicit_k :: ElicitTransform where
  "elicit_k = Elicit_init with_gui (new_ElicitTransform\<lparr>elicit_keys := [''k'']\<rparr>)"

section \<open>Properties\<close>

subsection \<open>Auxiliary facts\<close>

lemma char_toLower_cases: "char_toLower c = d \<Longrightarrow> d = c \<or> (of_char c :: nat) + 32 = of_char d"
  by (auto simp: char_toLower_def Let_def split: if_splits)

lemma char_toLower_y: "char_toLower c = CHR ''y'' \<Longrightarrow> c = CHR ''y'' \<or> c = CHR ''Y''"
proof -
  assume a: "char_toLower c = CHR ''y''"
  from char_toLower_cases [OF a] show ?thesis
  proof
    assume "CHR ''y'' = c" then show ?thesis by simp
  next
    assume "(of_char c :: nat) + 32 = of_char CHR ''y''"
    then have "(of_char c :: nat) = of_char CHR ''Y''" by simp
    then have "c = CHR ''Y''" by (simp only: of_char_eq_iff)
    then show ?thesis by simp
  qed
qed

lemma char_toLower_n: "char_toLower c = CHR ''n'' \<Longrightarrow> c = CHR ''n'' \<or> c = CHR ''N''"
proof -
  assume a: "char_toLower c = CHR ''n''"
  from char_toLower_cases [OF a] show ?thesis
  proof
    assume "CHR ''n'' = c" then show ?thesis by simp
  next
    assume "(of_char c :: nat) + 32 = of_char CHR ''n''"
    then have "(of_char c :: nat) = of_char CHR ''N''" by simp
    then have "c = CHR ''N''" by (simp only: of_char_eq_iff)
    then show ?thesis by simp
  qed
qed

lemma toLower_y: "toLower s = ''y'' \<Longrightarrow> s = ''y'' \<or> s = ''Y''"
  by (cases s) (auto simp: toLower_def dest: char_toLower_y)

lemma toLower_n: "toLower s = ''n'' \<Longrightarrow> s = ''n'' \<or> s = ''N''"
  by (cases s) (auto simp: toLower_def dest: char_toLower_n)

lemma toLower_consts:
  "toLower ''y'' = ''y''" "toLower ''Y'' = ''y''" "toLower ''n'' = ''n''" "toLower ''N'' = ''n''"
  "toLower ''q'' = ''q''"
  by code_simp+

lemma toLower_yn: "(toLower s = ''y'' \<or> toLower s = ''n'') = (s = ''y'' \<or> s = ''Y'' \<or> s = ''n'' \<or> s = ''N'')"
proof
  assume "toLower s = ''y'' \<or> toLower s = ''n''"
  then show "s = ''y'' \<or> s = ''Y'' \<or> s = ''n'' \<or> s = ''N''"
    using toLower_y toLower_n by blast
next
  assume "s = ''y'' \<or> s = ''Y'' \<or> s = ''n'' \<or> s = ''N''"
  then show "toLower s = ''y'' \<or> toLower s = ''n''"
    by (elim disjE) (simp_all add: toLower_consts)
qed

lemma prompt_filter_wtype:
  "PromptWindow_eventFilter w e = (w', woke, msgs) \<Longrightarrow> wtype w' = wtype w"
  by (auto simp: PromptWindow_eventFilter_def Let_def split: QEvent.splits if_splits)

lemma prompt_wait_events:
  "wtype w = PromptWindowT \<Longrightarrow> wait_events w evs lg = Some (w', rest, lg') \<Longrightarrow>
   (\<exists>pre. evs = pre @ KeyPress (gotString w') # rest \<and>
      (toLower (gotString w') = ''y'' \<or> toLower (gotString w') = ''n'') \<and>
      (\<forall>e\<in>set pre. \<not> fst (snd (PromptWindow_eventFilter w e))) \<and>
      lg' = lg @ concat (map (\<lambda>e. snd (snd (PromptWindow_eventFilter w e))) pre))"
proof (induction evs arbitrary: w lg)
  case Nil
  then show ?case by simp
next
  case (Cons e es)
  obtain w1 woke msgs where f: "PromptWindow_eventFilter w e = (w1, woke, msgs)"
    by (cases "PromptWindow_eventFilter w e") auto
  show ?case
  proof (cases woke)
    case True
    with f Cons.prems have "w' = w1" "rest = es" "lg' = lg @ msgs"
      by (auto simp: eventFilter_def)
    moreover from f True have "e = KeyPress (gotString w1) \<and> (toLower (gotString w1) = ''y'' \<or> toLower (gotString w1) = ''n'') \<and> msgs = []"
      by (auto simp: PromptWindow_eventFilter_def Let_def split: QEvent.splits if_splits)
    ultimately show ?thesis by (intro exI [of _ "[]"]) simp
  next
    case False
    with f have w1: "w1 = w"
      by (auto simp: PromptWindow_eventFilter_def Let_def split: QEvent.splits if_splits)
    from f False Cons.prems have "wait_events w es (lg @ msgs) = Some (w', rest, lg')"
      by (auto simp: eventFilter_def w1)
    from Cons.IH [OF Cons.prems(1) this] obtain pre where
      p: "es = pre @ KeyPress (gotString w') # rest"
        "toLower (gotString w') = ''y'' \<or> toLower (gotString w') = ''n''"
        "\<forall>e\<in>set pre. \<not> fst (snd (PromptWindow_eventFilter w e))"
        "lg' = (lg @ msgs) @ concat (map (\<lambda>e. snd (snd (PromptWindow_eventFilter w e))) pre)"
      by blast
    show ?thesis
      using p f False by (intro exI [of _ "e # pre"]) simp
  qed
qed

lemma pm_filter_key:
  "isKeyPress e \<Longrightarrow> PointMarkingWindow_eventFilter w e = (w, True, [])"
  by (cases e) (simp_all add: PointMarkingWindow_eventFilter_def DisplayWindow_eventFilter_def)

lemma pm_filter_nokey:
  "\<not> isKeyPress e \<Longrightarrow> PointMarkingWindow_eventFilter w e = (w1, woke, msgs) \<Longrightarrow>
   \<not> woke \<and> msgs = [] \<and> wtype w1 = wtype w \<and>
   length (points w1) + applied_secondary (length (points w)) (e # es) =
     applied_secondary (length (points w1)) es + length (points w) + (primary_presses (e # es) - primary_presses es)"
  by (cases e)
    (auto simp: PointMarkingWindow_eventFilter_def DisplayWindow_eventFilter_def Let_def
          split: if_splits)

lemma pm_primary_mono: "primary_presses es \<le> primary_presses (e # es)"
  by (cases e) auto

lemma pm_wait_events:
  "wtype w = PointMarkingWindowT \<Longrightarrow> wait_events w evs lg = Some (w', rest, lg') \<Longrightarrow>
   length (points w') + applied_secondary (length (points w)) (cycle_events evs) =
     length (points w) + primary_presses (cycle_events evs) \<and>
   (\<exists>e. isKeyPress e \<and> evs = cycle_events evs @ e # rest) \<and> lg' = lg"
proof (induction evs arbitrary: w lg)
  case Nil
  then show ?case by simp
next
  case (Cons e es)
  show ?case
  proof (cases "isKeyPress e")
    case True
    with Cons.prems show ?thesis
      by (auto simp: eventFilter_def pm_filter_key cycle_events_def)
  next
    case False
    obtain w1 woke msgs where f: "PointMarkingWindow_eventFilter w e = (w1, woke, msgs)"
      by (cases "PointMarkingWindow_eventFilter w e") auto
    note n = pm_filter_nokey [OF False f, of "cycle_events es"]
    from n f Cons.prems have "wait_events w1 es lg = Some (w', rest, lg')"
      by (auto simp: eventFilter_def)
    moreover from n Cons.prems(1) have "wtype w1 = PointMarkingWindowT" by simp
    ultimately have ih:
      "length (points w') + applied_secondary (length (points w1)) (cycle_events es) =
         length (points w1) + primary_presses (cycle_events es)"
      "\<exists>e. isKeyPress e \<and> es = cycle_events es @ e # rest" "lg' = lg"
      using Cons.IH by blast+
    have c: "cycle_events (e # es) = e # cycle_events es"
      using False by (simp add: cycle_events_def)
    from n ih(1) pm_primary_mono [of "cycle_events es" e]
    have "length (points w') + applied_secondary (length (points w)) (e # cycle_events es) =
      length (points w) + primary_presses (e # cycle_events es)"
      by linarith
    with ih(2,3) show ?thesis by (auto simp: c)
  qed
qed

lemma pm_wait_events_total:
  "wtype w = PointMarkingWindowT \<Longrightarrow> list_ex isKeyPress evs \<Longrightarrow>
   \<exists>r. wait_events w evs lg = Some r"
proof (induction evs arbitrary: w lg)
  case Nil
  then show ?case by simp
next
  case (Cons e es)
  show ?case
  proof (cases "isKeyPress e")
    case True
    with Cons.prems show ?thesis by (simp add: eventFilter_def pm_filter_key)
  next
    case False
    obtain w1 woke msgs where f: "PointMarkingWindow_eventFilter w e = (w1, woke, msgs)"
      by (cases "PointMarkingWindow_eventFilter w e") auto
    note n = pm_filter_nokey [OF False f, of "[]"]
    with Cons.prems False have "\<exists>r. wait_events w1 es (lg @ msgs) = Some r"
      by (intro Cons.IH) auto
    with n f Cons.prems(1) show ?thesis by (simp add: eventFilter_def)
  qed
qed


lemma prompt_filter_advisory:
  "\<not> fst (snd (PromptWindow_eventFilter w e)) \<Longrightarrow>
   \<not> prompt_accepts e \<and> snd (snd (PromptWindow_eventFilter w e)) = prompt_advisory e"
  by (cases e) (auto simp: PromptWindow_eventFilter_def Let_def split: if_splits)

lemma prompt_wait_events_none:
  "wtype w = PromptWindowT \<Longrightarrow> wait_events w evs lg = None \<Longrightarrow> \<not> list_ex prompt_accepts evs"
proof (induction evs arbitrary: w lg)
  case Nil
  then show ?case by simp
next
  case (Cons e es)
  obtain w1 woke msgs where f: "PromptWindow_eventFilter w e = (w1, woke, msgs)"
    by (cases "PromptWindow_eventFilter w e") auto
  with Cons.prems have nw: "\<not> woke" and r: "wait_events w1 es (lg @ msgs) = None"
    by (auto simp: eventFilter_def split: if_splits)
  from f nw have "w1 = w" "\<not> prompt_accepts e"
    by (cases e; auto simp: PromptWindow_eventFilter_def Let_def split: if_splits)+
  with Cons.IH [OF _ r] Cons.prems(1) show ?case by simp
qed

subsection \<open>The prompt window\<close>

text \<open>
  C2, as amended.  The prompt window's \<^verbatim>\<open>waitForKeyPress\<close> returns exactly when the
  events hold a key press whose text is y or n under case-insensitive comparison; it
  returns at the first such key press, and the value returned is the text of that key
  press as typed (one of y, n, Y, N; its lowercase form is y or n).  Every key press
  before it is ignored with an advisory message in the log, and the wait goes on.
\<close>

theorem prompt_waitForKeyPress_result:
  assumes "wtype w = PromptWindowT"
  shows "case waitForKeyPress w W of
           None \<Rightarrow> \<not> list_ex prompt_accepts (events W)
         | Some (s, w', W') \<Rightarrow>
             (s = ''y'' \<or> s = ''n'' \<or> s = ''Y'' \<or> s = ''N'') \<and>
             (toLower s = ''y'' \<or> toLower s = ''n'') \<and>
             (\<exists>pre. events W = pre @ KeyPress s # events W' \<and>
                    \<not> list_ex prompt_accepts pre \<and>
                    log W' = log W @ concat (map prompt_advisory pre))"
proof (cases "wait_events w (events W) (log W)")
  case None
  with assms show ?thesis
    by (simp add: waitForKeyPress_def wait_wait_def prompt_wait_events_none)
next
  case (Some r)
  obtain w' rest lg' where r: "r = (w', rest, lg')" by (cases r) auto
  from prompt_wait_events [OF assms Some [unfolded r]] obtain pre where
    p: "events W = pre @ KeyPress (gotString w') # rest"
      "toLower (gotString w') = ''y'' \<or> toLower (gotString w') = ''n''"
      "\<forall>e\<in>set pre. \<not> fst (snd (PromptWindow_eventFilter w e))"
      "lg' = log W @ concat (map (\<lambda>e. snd (snd (PromptWindow_eventFilter w e))) pre)"
    by blast
  from p(3) have a: "\<not> list_ex prompt_accepts pre"
    using prompt_filter_advisory by (auto simp: list_ex_iff)
  from p(3) have "map (\<lambda>e. snd (snd (PromptWindow_eventFilter w e))) pre = map prompt_advisory pre"
    using prompt_filter_advisory by (intro map_cong) auto
  with p(4) have l: "lg' = log W @ concat (map prompt_advisory pre)" by simp
  from p(2) have y: "gotString w' = ''y'' \<or> gotString w' = ''n'' \<or> gotString w' = ''Y'' \<or> gotString w' = ''N''"
    using toLower_yn [of "gotString w'"] by blast
  show ?thesis
    using Some r p(1,2) a l y
    by (auto simp: waitForKeyPress_def wait_wait_def)
qed

theorem prompt_waitForKeyPress_result_witness:
  "wtype (new_window PromptWindowT) = PromptWindowT \<and>
   (case waitForKeyPress (new_window PromptWindowT)
           \<lparr>events = [KeyPress ''q'', KeyPress ''N'', KeyPress ''y''], log = []\<rparr> of
      None \<Rightarrow> False
    | Some (s, w', W') \<Rightarrow>
        s = ''N'' \<and> events W' = [KeyPress ''y''] \<and> log W' = [''Please answer y/n''])"
  using prompt_waitForKeyPress_result [of "new_window PromptWindowT"
      "\<lparr>events = [KeyPress ''q'', KeyPress ''N'', KeyPress ''y''], log = []\<rparr>"]
  by (simp add: new_window_def waitForKeyPress_def wait_wait_def eventFilter_def
      PromptWindow_eventFilter_def toLower_consts)

text \<open>
  The claim as stated says the returned value is the lowercase character: after the
  key press Y the prompt returns the uppercase Y.
\<close>

theorem prompt_uppercase_counterexample:
  "map_option fst (waitForKeyPress (new_window PromptWindowT) \<lparr>events = [KeyPress ''Y''], log = []\<rparr>)
     = Some ''Y'' \<and> ''Y'' \<noteq> ''y'' \<and> ''Y'' \<noteq> ''n''"
  by (simp add: new_window_def waitForKeyPress_def wait_wait_def eventFilter_def
      PromptWindow_eventFilter_def toLower_consts)

subsection \<open>The point-collector window\<close>

text \<open>
  C9.  A wait cycle of the point-collector window returns when a key is pressed.  The
  returned list has as many points as primary-button presses were applied in the
  cycle minus the secondary-button presses applied; the length is never negative; the
  points held before the cycle do not contribute, since the list is cleared when the
  cycle starts; and a secondary-button press on an empty list leaves it empty.
\<close>

theorem pointCollector_cycle:
  assumes "wtype w = PointMarkingWindowT"
  shows "(case waitForKey w W of
            None \<Rightarrow> \<not> list_ex isKeyPress (events W)
          | Some (pts, w', W') \<Rightarrow>
              int (length pts) =
                int (primary_presses (cycle_events (events W))) -
                int (applied_secondary 0 (cycle_events (events W))) \<and>
              0 \<le> int (length pts) \<and>
              (\<exists>e. isKeyPress e \<and> events W = cycle_events (events W) @ e # events W')) \<and>
         waitForKey (w\<lparr>points := earlier\<rparr>) W = waitForKey w W \<and>
         points (fst (PointMarkingWindow_eventFilter (w\<lparr>points := []\<rparr>)
                        (MouseButtonPress RightButton p))) = []"
proof -
  let ?w0 = "w\<lparr>points := []\<rparr>"
  have t: "wtype ?w0 = PointMarkingWindowT" using assms by simp
  have a: "case waitForKey w W of
            None \<Rightarrow> \<not> list_ex isKeyPress (events W)
          | Some (pts, w', W') \<Rightarrow>
              int (length pts) =
                int (primary_presses (cycle_events (events W))) -
                int (applied_secondary 0 (cycle_events (events W))) \<and>
              0 \<le> int (length pts) \<and>
              (\<exists>e. isKeyPress e \<and> events W = cycle_events (events W) @ e # events W')"
  proof (cases "wait_events ?w0 (events W) (log W)")
    case None
    with pm_wait_events_total [OF t, of "events W" "log W"] assms show ?thesis
      by (auto simp: waitForKey_def PointMarkingWindow_waitForKey_def wait_wait_def)
  next
    case (Some r)
    obtain w' rest lg' where r: "r = (w', rest, lg')" by (cases r) auto
    from pm_wait_events [OF t Some [unfolded r]]
    have "length (points w') + applied_secondary 0 (cycle_events (events W)) =
        primary_presses (cycle_events (events W))"
      and "\<exists>e. isKeyPress e \<and> events W = cycle_events (events W) @ e # rest"
      by simp_all
    with Some r assms show ?thesis
      by (auto simp: waitForKey_def PointMarkingWindow_waitForKey_def wait_wait_def)
  qed
  have b: "waitForKey (w\<lparr>points := earlier\<rparr>) W = waitForKey w W"
    using assms by (simp add: waitForKey_def PointMarkingWindow_waitForKey_def)
  have c: "points (fst (PointMarkingWindow_eventFilter ?w0 (MouseButtonPress RightButton p))) = []"
    by (simp add: PointMarkingWindow_eventFilter_def)
  from a b c show ?thesis by blast
qed

theorem pointCollector_cycle_witness:
  "wtype (new_window PointMarkingWindowT) = PointMarkingWindowT \<and>
   map_option fst (waitForKey (new_window PointMarkingWindowT\<lparr>points := [(9, 9)]\<rparr>)
     \<lparr>events = [MouseButtonPress RightButton (0, 0), MouseButtonPress LeftButton (1, 2),
                MouseButtonPress LeftButton (3, 4), MouseButtonPress RightButton (0, 0),
                MouseButtonPress LeftButton (5, 6), KeyPress ''q''], log = []\<rparr>)
     = Some [(1, 2), (5, 6)]"
  using pointCollector_cycle [of "new_window PointMarkingWindowT"
     "\<lparr>events = [MouseButtonPress RightButton (0, 0), MouseButtonPress LeftButton (1, 2),
                MouseButtonPress LeftButton (3, 4), MouseButtonPress RightButton (0, 0),
                MouseButtonPress LeftButton (5, 6), KeyPress ''q''], log = []\<rparr>" "[(9, 9)]" "(0, 0)"]
  by (simp add: new_window_def waitForKey_def PointMarkingWindow_waitForKey_def wait_wait_def
      eventFilter_def PointMarkingWindow_eventFilter_def DisplayWindow_eventFilter_def)

subsection \<open>Manual and Survey\<close>









text \<open>
  C5.  With a parallelism degree above 1, Manual and Survey abort with their fatal
  message on every batch, before the batch, the window or the events are looked at:
  the result carries no frames, no transform state and no log.
\<close>

theorem single_thread_guard:
  assumes "1 < parallelism G"
  shows "Manual_projectUpdate G T src W =
           Inl (Fatal ''ManualTransform cannot execute in parallel.'') \<and>
         Survey_projectUpdate G T' src W =
           Inl (Fatal ''SurveyTransform cannot execute in parallel.'')"
  using assms by (simp add: Manual_projectUpdate_def Survey_projectUpdate_def)

theorem single_thread_guard_witness:
  "1 < parallelism parallel2 \<and>
   Manual_projectUpdate parallel2 (Manual_init parallel2 new_ShowTransform) [frame0, frame0]
       \<lparr>events = [MouseButtonPress LeftButton (1, 2), KeyPress ''q''], log = []\<rparr> =
     Inl (Fatal ''ManualTransform cannot execute in parallel.'') \<and>
   Survey_projectUpdate parallel2 (Survey_init parallel2 new_ShowTransform) [frame0, frame0]
       \<lparr>events = [MouseButtonPress LeftButton (1, 2), KeyPress ''q''], log = []\<rparr> =
     Inl (Fatal ''SurveyTransform cannot execute in parallel.'')"
  using single_thread_guard [of parallel2 "Manual_init parallel2 new_ShowTransform"
      "[frame0, frame0]" "\<lparr>events = [MouseButtonPress LeftButton (1, 2), KeyPress ''q''], log = []\<rparr>"
      "Survey_init parallel2 new_ShowTransform"]
  by (simp add: parallel2_def)

subsection \<open>Headless mode\<close>

text \<open>
  C1.  With the GUI flag disabled, \<open>init\<close> creates neither window nor display buffer,
  but \<open>projectUpdate\<close> does not test the flag: on a frame that holds an image, each of
  the four drivers calls \<^verbatim>\<open>convertFromImage\<close> through the null display buffer instead
  of returning the batch.
\<close>

theorem headless_projectUpdate_null_dereference:
  "Show_projectUpdate (\<lambda>v. []) (Show_init headless new_ShowTransform) [frame0] quiet =
     Inl NullDereference \<and>
   Manual_projectUpdate headless (Manual_init headless new_ShowTransform) [frame0] quiet =
     Inl NullDereference \<and>
   Survey_projectUpdate headless (Survey_init headless new_ShowTransform) [frame0] quiet =
     Inl NullDereference \<and>
   Elicit_projectUpdate (Elicit_init headless new_ElicitTransform) [frame0] quiet =
     Inl NullDereference"
  by (simp add: Show_projectUpdate_def Manual_projectUpdate_def Survey_projectUpdate_def
      Elicit_projectUpdate_def Show_init_def Manual_init_def Survey_init_def Elicit_init_def
      initActual_def headless_def new_ShowTransform_def new_ElicitTransform_def frame0_def
      emit_changeTitle_def)

subsection \<open>The form window and Elicit\<close>

lemma showImage_fold_fields:
  "gui_fields (fold (\<lambda>label g'. g'\<lparr>gui_fields := gui_fields g' @ [[]],
                                   form_labels := form_labels g' @ [label]\<rparr>) ls g) =
     gui_fields g @ replicate (length ls) []"
  by (induction ls arbitrary: g) (simp_all add: replicate_append_same)

lemma showImage_fold_keys:
  "gui_keys (fold (\<lambda>label g'. g'\<lparr>gui_fields := gui_fields g' @ [[]],
                                   form_labels := form_labels g' @ [label]\<rparr>) ls g) = gui_keys g"
  by (induction ls arbitrary: g) simp_all

lemma DisplayGUI_showImage_fields:
  "gui_fields (DisplayGUI_showImage g input) = gui_fields g @ replicate (length (gui_keys g)) [] \<and>
   gui_keys (DisplayGUI_showImage g input) = gui_keys g"
  by (simp add: DisplayGUI_showImage_def Let_def showImage_fold_fields showImage_fold_keys)

lemma DisplayGUI_event_length:
  "DisplayGUI_event g e = (g', woke) \<Longrightarrow>
   length (gui_fields g') = length (gui_fields g) \<and> gui_keys g' = gui_keys g"
  by (cases e) (auto simp: DisplayGUI_event_def split: if_splits)

lemma DisplayGUI_wait_length:
  "DisplayGUI_wait g evs = Some (g', rest) \<Longrightarrow>
   length (gui_fields g') = length (gui_fields g) \<and> gui_keys g' = gui_keys g"
proof (induction evs arbitrary: g)
  case Nil
  then show ?case by simp
next
  case (Cons e es)
  obtain g1 woke where f: "DisplayGUI_event g e = (g1, woke)"
    by (cases "DisplayGUI_event g e") auto
  from DisplayGUI_event_length [OF f] Cons f show ?case
    by (cases woke) auto
qed

lemma form_cycle_length:
  "waitForButtonPress (DisplayGUI_showImage g input) W = Some (values, g', W') \<Longrightarrow>
   length values = length (gui_fields g) + length (gui_keys g) \<and>
   length (gui_fields g') = length (gui_fields g) + length (gui_keys g) \<and>
   gui_keys g' = gui_keys g"
  using DisplayGUI_wait_length [of "DisplayGUI_showImage g input" "events W"]
  by (auto simp: waitForButtonPress_def DisplayGUI_showImage_fields split: option.splits)

text \<open>
  C3.  The form window adds one line edit per key each time an image is shown and
  never removes one, so only the first cycle returns one entry per key: with the one
  key k, the second cycle returns two entries.
\<close>

theorem form_second_cycle_returns_twice_the_keys:
  "(case waitForButtonPress (DisplayGUI_showImage (setKeys new_DisplayGUI [''k'']) 7)
           \<lparr>events = [FieldEdited 0 ''first'', ButtonClicked], log = []\<rparr> of
      None \<Rightarrow> None
    | Some (values1, g1, W1) \<Rightarrow>
        (case waitForButtonPress (DisplayGUI_showImage g1 8)
                \<lparr>events = [FieldEdited 1 ''second'', ButtonClicked], log = []\<rparr> of
           None \<Rightarrow> None
         | Some (values2, g2, W2) \<Rightarrow> Some (gui_keys g2, values1, values2)))
   = Some ([''k''], [''first''], [''first'', ''second''])"
  by (simp add: waitForButtonPress_def DisplayGUI_showImage_def setKeys_def new_DisplayGUI_def
      DisplayGUI_event_def Let_def upt_rec)

text \<open>
  C4.  Elicit does not compare the number of keys with the number of returned fields.
  On the second frame the form returns two fields for the one key k; the merge logs
  nothing and writes the first field, the text entered for the first frame.  With
  fewer fields than keys the loop reads the field list past its end.
\<close>

theorem Elicit_merge_unchecked:
  "(case Elicit_projectUpdate elicit_k [frame0, frame0]
           \<lparr>events = [FieldEdited 0 ''first'', ButtonClicked,
                      FieldEdited 1 ''second'', ButtonClicked], log = []\<rparr> of
      Inl e \<Rightarrow> None
    | Inr (dst, T, W) \<Rightarrow>
        Some (map (\<lambda>t. m_metadata (tfile t) ''k'') dst, map_option gui_fields (gui T), log W))
   = Some ([Some (VString ''first''), Some (VString ''first'')],
           Some [''first'', ''second''], []) \<and>
   Elicit_set [''a'', ''b''] [''x''] [0..<length [''a'', ''b'']] file0 = Inl IndexOutOfRange"
  by (simp add: Elicit_projectUpdate_def elicit_k_def Elicit_init_def with_gui_def
      new_ElicitTransform_def frame0_def file0_def Elicit_emit_updateImage_def
      waitForButtonPress_def DisplayGUI_showImage_def setKeys_def new_DisplayGUI_def
      DisplayGUI_event_def File_set_def toQImage_def Let_def upt_rec)

subsection \<open>The rate limiter\<close>

lemma target_wait_of_pos: "0 < r \<Longrightarrow> target_wait_of r = Some (1000 div r)"
  by (simp add: target_wait_of_def)

lemma FPSLimit_tick:
  "FPSLimit_projectUpdate s now oversleep src =
     (let elapsed = now - timer s - last_time s;
          woke = (if elapsed \<le> target_wait s then now + (target_wait s - elapsed) + oversleep
                  else now)
      in (src, s\<lparr>last_time := woke - timer s\<rparr>, woke))"
  by (simp add: FPSLimit_projectUpdate_def Let_def algebra_simps)

lemma FPSLimit_ticks_lower:
  "list_all (\<lambda>(work, oversleep). 0 \<le> work \<and> 0 \<le> oversleep) cs \<Longrightarrow>
   timer s + last_time s \<le> now \<Longrightarrow>
   timer s + last_time s + int (length cs) * target_wait s \<le> snd (FPSLimit_ticks s now cs) \<and>
   now \<le> snd (FPSLimit_ticks s now cs)"
proof (induction cs arbitrary: s now)
  case Nil
  then show ?case by simp
next
  case (Cons c cs)
  obtain work over where c: "c = (work, over)" by (cases c) auto
  with Cons.prems have w: "0 \<le> work" "0 \<le> over" "list_all (\<lambda>(work, oversleep). 0 \<le> work \<and> 0 \<le> oversleep) cs"
    by simp_all
  define elapsed where "elapsed = now + work - timer s - last_time s"
  define woke where "woke = (if elapsed \<le> target_wait s then now + work + (target_wait s - elapsed) + over
                  else now + work)"
  define s' where "s' = s\<lparr>last_time := woke - timer s\<rparr>"
  have t: "FPSLimit_projectUpdate s (now + work) over [] = ([], s', woke)"
    by (simp add: FPSLimit_tick Let_def elapsed_def woke_def s'_def)
  have s': "timer s' = timer s" "target_wait s' = target_wait s" "timer s' + last_time s' = woke"
    by (simp_all add: s'_def)
  have ge: "timer s + last_time s + target_wait s \<le> woke" "now \<le> woke"
    using w Cons.prems(2) by (auto simp: woke_def elapsed_def)
  from Cons.IH [OF w(3), of s' woke] s'
  have "woke + int (length cs) * target_wait s \<le> snd (FPSLimit_ticks s' woke cs)"
    "woke \<le> snd (FPSLimit_ticks s' woke cs)"
    by simp_all
  with ge show ?case
    by (simp add: c t algebra_simps)
qed

lemma FPSLimit_ticks_instant:
  "0 \<le> target_wait s \<Longrightarrow> timer s + last_time s = now \<Longrightarrow>
   snd (FPSLimit_ticks s now (replicate n (0, 0))) = now + int n * target_wait s"
proof (induction n arbitrary: s now)
  case 0
  then show ?case by simp
next
  case (Suc n)
  have t: "FPSLimit_projectUpdate s now 0 [] =
      ([], s\<lparr>last_time := now + target_wait s - timer s\<rparr>, now + target_wait s)"
    using Suc.prems by (simp add: FPSLimit_tick Let_def)
  have "snd (FPSLimit_ticks (s\<lparr>last_time := now + target_wait s - timer s\<rparr>)
      (now + target_wait s) (replicate n (0, 0))) = now + target_wait s + int n * target_wait s"
    using Suc.prems
      Suc.IH [of "s\<lparr>last_time := now + target_wait s - timer s\<rparr>" "now + target_wait s"]
    by simp
  then show ?case by (simp add: t algebra_simps)
qed

text \<open>
  What the limiter does: for a positive rate \<open>R\<close> the interval is \<open>1000 div R\<close>; a
  call sleeps the shortfall and records the time at which it wakes, so consecutive
  ticks are at least one interval apart, and exactly one when nothing else takes time.
\<close>

lemma FPSLimit_interval:
  assumes "0 < targetFPS s0"
    and "list_all (\<lambda>(work, oversleep). 0 \<le> work \<and> 0 \<le> oversleep) cs"
    and "timer s + last_time s \<le> now"
  shows "FPSLimit_init s0 c0 c1 =
           Some (s0\<lparr>target_wait := 1000 div targetFPS s0, timer := c0, last_time := c1 - c0\<rparr>) \<and>
         FPSLimit_projectUpdate s now oversleep src =
           (let elapsed = now - timer s - last_time s;
                woke = (if elapsed \<le> target_wait s
                        then now + (target_wait s - elapsed) + oversleep else now)
            in (src, s\<lparr>last_time := woke - timer s\<rparr>, woke)) \<and>
         timer s + last_time s + int (length cs) * target_wait s \<le> snd (FPSLimit_ticks s now cs) \<and>
         (0 \<le> target_wait s \<and> timer s + last_time s = now \<longrightarrow>
            snd (FPSLimit_ticks s now (replicate n (0, 0))) = now + int n * target_wait s)"
  using assms FPSLimit_ticks_lower [of cs s now] FPSLimit_ticks_instant [of s now n]
  by (simp add: FPSLimit_init_def target_wait_of_pos FPSLimit_tick)

text \<open>
  C7.  The limiter does not hold the rate at the target.  The interval \<open>1000 / R\<close> is
  computed as a double and stored in the 64-bit integer \<open>target_wait\<close>, which drops
  the fraction: at the default rate of 30 the interval is 33 ms, so five ticks with no
  work in between take 165 ms, less than five times \<open>1000 / 30\<close> ms; at 1001 the
  interval is 0 and the ticks are not spaced at all.
\<close>

theorem FPSLimit_exceeds_target_rate:
  "FPSLimit_init limiter30 0 0 = Some (limiter30\<lparr>target_wait := 33\<rparr>) \<and>
   snd (FPSLimit_ticks (limiter30\<lparr>target_wait := 33\<rparr>) 0
          [(0, 0), (0, 0), (0, 0), (0, 0), (0, 0)]) = 165 \<and>
   \<not> (1000 * 5 \<le> (165 - 0) * targetFPS limiter30) \<and>
   FPSLimit_init limiter1001 0 0 = Some limiter1001 \<and>
   snd (FPSLimit_ticks limiter1001 0 [(0, 0), (0, 0), (0, 0), (0, 0), (0, 0)]) = 0"
  by (simp add: limiter30_def limiter1001_def FPSLimit_init_def target_wait_of_def
      FPSLimit_projectUpdate_def Let_def)

subsection \<open>The rate calculator\<close>

lemma wrap64_id: "- (2 ^ 63) \<le> x \<Longrightarrow> x < 2 ^ 63 \<Longrightarrow> wrap64 x = x"
  by (simp add: wrap64_def)

lemma cpp_div_nonneg: "0 \<le> a \<Longrightarrow> 0 < b \<Longrightarrow> cpp_div a b = a div b"
  by (simp add: cpp_div_def)

lemma FPSCalc_call_counter:
  "- (2 ^ 63) \<le> framesSeen s \<Longrightarrow> framesSeen s < 2 ^ 63 - 1 \<Longrightarrow>
   framesSeen (snd (FPSCalc_projectUpdate s c now src)) = framesSeen s + 1"
  by (simp add: FPSCalc_projectUpdate_def Let_def wrap64_id split: list.splits)

lemma FPSCalc_call_timer:
  "initialized (snd (FPSCalc_projectUpdate s c now src)) \<and>
   calc_timer (snd (FPSCalc_projectUpdate s c now src)) =
     (if initialized s then calc_timer s else c)"
  by (simp add: FPSCalc_projectUpdate_def Let_def split: list.splits)

lemma FPSCalc_calls_counter:
  "0 \<le> framesSeen s \<Longrightarrow> framesSeen s + int (length cs) < 2 ^ 63 \<Longrightarrow>
   framesSeen (FPSCalc_calls s cs) = framesSeen s + int (length cs)"
proof (induction cs arbitrary: s)
  case Nil
  then show ?case by simp
next
  case (Cons call cs)
  obtain c now src where call: "call = (c, now, src)" by (cases call) auto
  let ?s = "snd (FPSCalc_projectUpdate s c now src)"
  from Cons.prems have f: "framesSeen ?s = framesSeen s + 1"
    by (intro FPSCalc_call_counter) simp_all
  with Cons.prems have "framesSeen (FPSCalc_calls ?s cs) = framesSeen ?s + int (length cs)"
    by (intro Cons.IH) simp_all
  with f show ?case by (simp add: call)
qed

lemma FPSCalc_calls_timer:
  "initialized s \<Longrightarrow>
   initialized (FPSCalc_calls s cs) \<and> calc_timer (FPSCalc_calls s cs) = calc_timer s"
proof (induction cs arbitrary: s)
  case Nil
  then show ?case by simp
next
  case (Cons call cs)
  obtain c now src where call: "call = (c, now, src)" by (cases call) auto
  from Cons.prems Cons.IH [of "snd (FPSCalc_projectUpdate s c now src)"]
    FPSCalc_call_timer [of s c now src]
  show ?case by (simp add: call)
qed

lemma FPSCalc_stamp:
  "0 \<le> framesSeen s \<Longrightarrow> 1000 * (framesSeen s + 1) < 2 ^ 63 \<Longrightarrow>
   1000 < now - (if initialized s then calc_timer s else c) \<Longrightarrow>
   fst (FPSCalc_projectUpdate s c now (t # ts)) =
     t\<lparr>tfile := File_set (tfile t) ''AvgFPS''
           (VNumber ((1000 * (framesSeen s + 1)) div
                     (now - (if initialized s then calc_timer s else c))))\<rparr> # ts"
proof -
  assume a: "0 \<le> framesSeen s" "1000 * (framesSeen s + 1) < 2 ^ 63"
    "1000 < now - (if initialized s then calc_timer s else c)"
  from a have w1: "wrap64 (framesSeen s + 1) = framesSeen s + 1"
    by (intro wrap64_id) simp_all
  from a have w2: "wrap64 (1000 * (framesSeen s + 1)) = 1000 * (framesSeen s + 1)"
    by (intro wrap64_id) simp_all
  from a have d: "cpp_div (1000 * (framesSeen s + 1))
      (now - (if initialized s then calc_timer s else c)) =
      (1000 * (framesSeen s + 1)) div (now - (if initialized s then calc_timer s else c))"
    by (intro cpp_div_nonneg) simp_all
  from w2 have w3: "wrap64 (1000 * framesSeen s + 1000) = 1000 * framesSeen s + 1000"
    by (simp add: algebra_simps)
  show ?thesis
    using a(3) d by (simp add: FPSCalc_projectUpdate_def Let_def w1 w3 split: if_splits)
qed

lemma FPSCalc_no_stamp:
  "now - (if initialized s then calc_timer s else c) \<le> 1000 \<Longrightarrow>
   fst (FPSCalc_projectUpdate s c now src) = src"
  by (auto simp: FPSCalc_projectUpdate_def Let_def split: list.splits)

text \<open>
  C8, as amended.  Every call adds one to the frame counter.  When more than 1000 ms
  have elapsed since the timer was started, the first frame of the batch gets the
  integer quotient \<open>1000 * F div T\<close> under the key AvgFPS, where \<open>F\<close> counts the calls
  so far, this one included; up to and including 1000 ms nothing is stamped.  Over
  the lifetime of the component, from \<open>init\<close> on, the counter is the number of calls
  made and the timer is the one started by the first call: neither is reset.  The
  counter is taken in the range where \<open>1000 * F\<close> is a 64-bit integer.
\<close>

theorem FPSCalc_average:
  assumes "0 \<le> framesSeen s" and "1000 * (framesSeen s + 1) < 2 ^ 63"
    and "int (length cs) < 2 ^ 63 - 1"
  shows "framesSeen (snd (FPSCalc_projectUpdate s c now src)) = framesSeen s + 1 \<and>
   initialized (snd (FPSCalc_projectUpdate s c now src)) \<and>
   calc_timer (snd (FPSCalc_projectUpdate s c now src)) =
     (if initialized s then calc_timer s else c) \<and>
   (1000 < now - (if initialized s then calc_timer s else c) \<longrightarrow>
      fst (FPSCalc_projectUpdate s c now (t # ts)) =
        t\<lparr>tfile := File_set (tfile t) ''AvgFPS''
              (VNumber ((1000 * (framesSeen s + 1)) div
                        (now - (if initialized s then calc_timer s else c))))\<rparr> # ts) \<and>
   (now - (if initialized s then calc_timer s else c) \<le> 1000 \<longrightarrow>
      fst (FPSCalc_projectUpdate s c now src) = src) \<and>
   fst (FPSCalc_projectUpdate s c now []) = [] \<and>
   framesSeen (FPSCalc_lifetime s0 ((c1, now1, src1) # cs)) = 1 + int (length cs) \<and>
   initialized (FPSCalc_lifetime s0 ((c1, now1, src1) # cs)) \<and>
   calc_timer (FPSCalc_lifetime s0 ((c1, now1, src1) # cs)) = c1"
proof -
  have 1: "framesSeen (snd (FPSCalc_projectUpdate s c now src)) = framesSeen s + 1"
    using assms(1,2) by (intro FPSCalc_call_counter) simp_all
  have 2: "fst (FPSCalc_projectUpdate s c now []) = []"
    by (simp add: FPSCalc_projectUpdate_def Let_def)
  let ?s1 = "snd (FPSCalc_projectUpdate (FPSCalc_init s0) c1 now1 src1)"
  have i: "framesSeen ?s1 = 1" "initialized ?s1" "calc_timer ?s1 = c1"
    using FPSCalc_call_counter [of "FPSCalc_init s0" c1 now1 src1]
      FPSCalc_call_timer [of "FPSCalc_init s0" c1 now1 src1]
    by (simp_all add: FPSCalc_init_def)
  have 3: "framesSeen (FPSCalc_lifetime s0 ((c1, now1, src1) # cs)) = 1 + int (length cs)"
    using FPSCalc_calls_counter [of ?s1 cs] i(1) assms(3) by (simp add: FPSCalc_lifetime_def)
  have 4: "initialized (FPSCalc_lifetime s0 ((c1, now1, src1) # cs)) \<and>
      calc_timer (FPSCalc_lifetime s0 ((c1, now1, src1) # cs)) = c1"
    using FPSCalc_calls_timer [of ?s1 cs] i(2,3) by (simp add: FPSCalc_lifetime_def)
  show ?thesis
    using 1 2 3 4 FPSCalc_call_timer [of s c now src] FPSCalc_stamp [OF assms(1,2), of now c t ts]
      FPSCalc_no_stamp [of now s c src]
    by simp
qed

theorem FPSCalc_average_witness:
  "0 \<le> framesSeen calc9 \<and> 1000 * (framesSeen calc9 + 1) < 2 ^ 63 \<and>
   int (length [(5, 1500, [frame0]), (6, 2500 :: int, [] :: TemplateList)]) < 2 ^ 63 - 1 \<and>
   1000 < 1001 - calc_timer calc9 \<and>
   map (\<lambda>t. m_metadata (tfile t) ''AvgFPS'')
     (fst (FPSCalc_projectUpdate calc9 0 1001 [frame0, frame0])) = [Some (VNumber 9), None] \<and>
   fst (FPSCalc_projectUpdate calc9 0 1000 [frame0, frame0]) = [frame0, frame0] \<and>
   framesSeen (snd (FPSCalc_projectUpdate calc9 0 1001 [frame0, frame0])) = 10 \<and>
   FPSCalc_lifetime calc9 [(4, 1000, [frame0]), (5, 1500, [frame0]), (6, 2500, [])] =
     \<lparr>initialized = True, calc_timer = 4, framesSeen = 3\<rparr>"
  using FPSCalc_average [of calc9 "[(5, 1500, [frame0]), (6, 2500, [])]" 0 1001
      "[frame0, frame0]" frame0 "[frame0]" calc9 4 1000 "[frame0]"]
    FPSCalc_average [of calc9 "[]" 0 1000 "[frame0, frame0]" frame0 "[frame0]" calc9 4 1000 "[frame0]"]
  by (simp add: calc9_def frame0_def file0_def File_set_def FPSCalc_lifetime_def
      FPSCalc_init_def FPSCalc_projectUpdate_def wrap64_def cpp_div_def Let_def)

text \<open>
  The claim as stated adds the number of sub-items and stamps from 1000 ms on: a batch
  of two frames at exactly 1000 ms raises the counter from 9 to 10 and stamps nothing.
\<close>

theorem FPSCalc_counter_counterexample:
  "framesSeen (snd (FPSCalc_projectUpdate calc9 0 1000 [frame0, frame0])) = 10 \<and>
   10 \<noteq> 9 + length (concat (map mats [frame0, frame0])) \<and>
   10 \<noteq> 9 + length [frame0, frame0] \<and>
   map (\<lambda>t. m_metadata (tfile t) ''AvgFPS'')
     (fst (FPSCalc_projectUpdate calc9 0 1000 [frame0, frame0])) = [None, None]"
  by (simp add: FPSCalc_projectUpdate_def calc9_def frame0_def file0_def wrap64_def Let_def)

text \<open>Past that range the product wraps: the stamped value is negative.\<close>

lemma FPSCalc_overflow_example:
  "map (\<lambda>t. m_metadata (tfile t) ''AvgFPS'')
     (fst (FPSCalc_projectUpdate
        \<lparr>initialized = True, calc_timer = 0, framesSeen = 9223372036854775\<rparr> 0 2000 [frame0]))
   = [Some (VNumber (- 4611686018427387))]"
  by (simp add: FPSCalc_projectUpdate_def frame0_def file0_def File_set_def wrap64_def
      cpp_div_def Let_def)

text \<open>
  C10.  Every call of the rate calculator raises the frame counter by exactly one,
  whatever the batch holds (for a counter below the largest 64-bit integer).  An empty
  batch comes back empty, with no stamp, and still counts in the average stamped by a
  later call.
\<close>

theorem FPSCalc_counts_invocations:
  assumes "- (2 ^ 63) \<le> framesSeen s" and "framesSeen s < 2 ^ 63 - 1"
  shows "framesSeen (snd (FPSCalc_projectUpdate s c now src)) = framesSeen s + 1 \<and>
   FPSCalc_projectUpdate s c now [] =
     ([], s\<lparr>initialized := True, calc_timer := (if initialized s then calc_timer s else c),
           framesSeen := framesSeen s + 1\<rparr>) \<and>
   (initialized s \<and> 0 \<le> framesSeen s \<and> 1000 * (framesSeen s + 2) < 2 ^ 63 \<and>
    1000 < now' - calc_timer s \<longrightarrow>
      fst (FPSCalc_projectUpdate (snd (FPSCalc_projectUpdate s c now [])) c' now' (t # ts)) =
        t\<lparr>tfile := File_set (tfile t) ''AvgFPS''
              (VNumber ((1000 * (framesSeen s + 2)) div (now' - calc_timer s)))\<rparr> # ts)"
proof -
  have 1: "framesSeen (snd (FPSCalc_projectUpdate s c now src)) = framesSeen s + 1"
    using assms by (rule FPSCalc_call_counter)
  have w: "wrap64 (framesSeen s + 1) = framesSeen s + 1"
    using assms by (intro wrap64_id) simp_all
  have 2: "FPSCalc_projectUpdate s c now [] =
     ([], s\<lparr>initialized := True, calc_timer := (if initialized s then calc_timer s else c),
           framesSeen := framesSeen s + 1\<rparr>)"
    by (simp add: FPSCalc_projectUpdate_def Let_def w)
  have 3: "initialized s \<and> 0 \<le> framesSeen s \<and> 1000 * (framesSeen s + 2) < 2 ^ 63 \<and>
    1000 < now' - calc_timer s \<longrightarrow>
      fst (FPSCalc_projectUpdate (snd (FPSCalc_projectUpdate s c now [])) c' now' (t # ts)) =
        t\<lparr>tfile := File_set (tfile t) ''AvgFPS''
              (VNumber ((1000 * (framesSeen s + 2)) div (now' - calc_timer s)))\<rparr> # ts"
  proof
    assume h: "initialized s \<and> 0 \<le> framesSeen s \<and> 1000 * (framesSeen s + 2) < 2 ^ 63 \<and>
      1000 < now' - calc_timer s"
    let ?s = "s\<lparr>initialized := True, calc_timer := calc_timer s, framesSeen := framesSeen s + 1\<rparr>"
    from h have s: "snd (FPSCalc_projectUpdate s c now []) = ?s" by (simp add: 2)
    have "fst (FPSCalc_projectUpdate ?s c' now' (t # ts)) =
      t\<lparr>tfile := File_set (tfile t) ''AvgFPS''
           (VNumber ((1000 * (framesSeen ?s + 1)) div
                     (now' - (if initialized ?s then calc_timer ?s else c'))))\<rparr> # ts"
      using h by (intro FPSCalc_stamp) simp_all
    then show "fst (FPSCalc_projectUpdate (snd (FPSCalc_projectUpdate s c now [])) c' now' (t # ts)) =
        t\<lparr>tfile := File_set (tfile t) ''AvgFPS''
              (VNumber ((1000 * (framesSeen s + 2)) div (now' - calc_timer s)))\<rparr> # ts"
      by (simp add: s algebra_simps)
  qed
  from 1 2 3 show ?thesis by blast
qed

theorem FPSCalc_counts_invocations_witness:
  "- (2 ^ 63) \<le> framesSeen calc9 \<and> framesSeen calc9 < 2 ^ 63 - 1 \<and>
   initialized calc9 \<and> 0 \<le> framesSeen calc9 \<and> 1000 * (framesSeen calc9 + 2) < 2 ^ 63 \<and>
   1000 < 2000 - calc_timer calc9 \<and>
   framesSeen (snd (FPSCalc_projectUpdate calc9 0 1500 [])) = 10 \<and>
   map (\<lambda>t. m_metadata (tfile t) ''AvgFPS'')
     (fst (FPSCalc_projectUpdate (snd (FPSCalc_projectUpdate calc9 0 1500 [])) 0 2000 [frame0]))
     = [Some (VNumber 5)]"
  using FPSCalc_counts_invocations [of calc9 0 1500 "[]" 2000 0 frame0 "[]"]
  by (simp add: calc9_def frame0_def file0_def File_set_def FPSCalc_projectUpdate_def
      wrap64_def cpp_div_def Let_def)

end
